theory Spec2Isabelle
  imports Main "HOL-Library.Extended_Nat"
begin

section \<open>The world the ASI object runs in\<close>

text \<open>
  \<^verbatim>\<open>ASI.py\<close> is one class, \<^verbatim>\<open>ASI\<close>, whose methods mutate the object, write to the
  log, read and write files, and (in \<^verbatim>\<open>self_learn\<close>) write into list objects owned by
  the caller. Each method is a function from the state it touches to the outcome and the
  new state. An outcome is \<open>Inr\<close> of the returned value or \<open>Inl\<close> of the exception that
  leaves the method; the state is returned in both cases, since what a method has written
  before it raises stays written.

  Calls into libraries (\<^verbatim>\<open>pickle\<close>, \<^verbatim>\<open>ctypes\<close>, \<^verbatim>\<open>sklearn\<close>, \<^verbatim>\<open>str\<close>) are parameters of the
  method that makes them.
\<close>

subsection \<open>Exceptions\<close>

text \<open>
  The errors of the calls the program makes: \<^verbatim>\<open>open\<close> and \<^verbatim>\<open>ctypes.CDLL\<close> raise
  \<^verbatim>\<open>OSError\<close>, list indexing raises \<^verbatim>\<open>IndexError\<close>, \<^verbatim>\<open>pickle\<close> raises its own errors and
  \<^verbatim>\<open>EOFError\<close>, and \<^verbatim>\<open>fit\<close> raises \<^verbatim>\<open>ValueError\<close>. Each carries its message. All of them
  are subclasses of \<^verbatim>\<open>Exception\<close>, the class the two \<^verbatim>\<open>except Exception\<close> clauses of the
  program catch.
\<close>

datatype py_error =
    OSError string
  | IndexError string
  | PickleError string
  | EOFError string
  | ValueError string
  | OtherException string

text \<open>\<^verbatim>\<open>str(e)\<close>, as the f-strings of the two handlers render the exception.\<close>

fun str_error :: "py_error \<Rightarrow> string" where
  "str_error (OSError m) = m"
| "str_error (IndexError m) = m"
| "str_error (PickleError m) = m"
| "str_error (EOFError m) = m"
| "str_error (ValueError m) = m"
| "str_error (OtherException m) = m"

text \<open>
  \<^verbatim>\<open>pickle\<close> runs code of the objects it writes and of the stream it reads
  (\<^verbatim>\<open>__reduce__\<close>, and any callable the stream names), so a call of \<^verbatim>\<open>pickle.dump\<close> or
  \<^verbatim>\<open>pickle.load\<close> can also raise what is not an \<^verbatim>\<open>Exception\<close>: \<^verbatim>\<open>SystemExit\<close> with its exit
  code (the stream calls \<^verbatim>\<open>sys.exit\<close>) and \<^verbatim>\<open>KeyboardInterrupt\<close>. What the methods of the
  durable store raise is of this wider type.
\<close>

datatype py_raised =
    Exception py_error
  | SystemExit int
  | KeyboardInterrupt

text \<open>\<^verbatim>\<open>isinstance(e, Exception)\<close>: what an \<^verbatim>\<open>except Exception\<close> clause catches.\<close>

fun is_Exception :: "py_raised \<Rightarrow> bool" where
  "is_Exception (Exception e) = True"
| "is_Exception (SystemExit n) = False"
| "is_Exception KeyboardInterrupt = False"

subsection \<open>Files and the log\<close>

text \<open>
  A path names nothing, a regular file with its content, or a directory
  (\<^verbatim>\<open>os.path.exists\<close> is true of both, \<^verbatim>\<open>open\<close> fails on a directory).
\<close>

datatype 'b node = File 'b | Dir

datatype level = INFO | WARNING | ERROR

text \<open>
  \<^verbatim>\<open>logging.basicConfig(filename='asi.log', level=logging.INFO)\<close>: every call of
  \<^verbatim>\<open>logging.info\<close>, \<^verbatim>\<open>logging.warning\<close> and \<^verbatim>\<open>logging.error\<close> appends one record.
\<close>

record 'b world =
  files :: "string \<rightharpoonup> 'b node"
  log_records :: "(level \<times> string) list"

definition logging_info :: "string \<Rightarrow> 'b world \<Rightarrow> 'b world" where
  "logging_info msg w = w\<lparr>log_records := log_records w @ [(INFO, msg)]\<rparr>"

definition logging_warning :: "string \<Rightarrow> 'b world \<Rightarrow> 'b world" where
  "logging_warning msg w = w\<lparr>log_records := log_records w @ [(WARNING, msg)]\<rparr>"

definition logging_error :: "string \<Rightarrow> 'b world \<Rightarrow> 'b world" where
  "logging_error msg w = w\<lparr>log_records := log_records w @ [(ERROR, msg)]\<rparr>"

definition path_exists :: "'b world \<Rightarrow> string \<Rightarrow> bool" where
  "path_exists w p = (files w p \<noteq> None)"

text \<open>
  The message of the \<^verbatim>\<open>OSError\<close> that \<^verbatim>\<open>open\<close> raises names the path between single
  quotes (its \<^verbatim>\<open>repr\<close>, for a path made of plain printable characters).
\<close>

definition quoted :: "string \<Rightarrow> string" where
  "quoted p = [CHR 0x27] @ p @ [CHR 0x27]"

definition is_a_directory :: "string \<Rightarrow> py_error" where
  "is_a_directory p = OSError (''[Errno 21] Is a directory: '' @ quoted p)"

definition no_such_file :: "string \<Rightarrow> py_error" where
  "no_such_file p = OSError (''[Errno 2] No such file or directory: '' @ quoted p)"

text \<open>\<^verbatim>\<open>open(p, 'rb')\<close>, followed by reading the whole file.\<close>

definition open_rb :: "'b world \<Rightarrow> string \<Rightarrow> py_error + 'b" where
  "open_rb w p =
     (case files w p of
        None \<Rightarrow> Inl (no_such_file p)
      | Some Dir \<Rightarrow> Inl (is_a_directory p)
      | Some (File b) \<Rightarrow> Inr b)"

text \<open>
  \<^verbatim>\<open>open(p, 'wb')\<close>: fails on a directory; otherwise the file is created or truncated, and
  what is written afterwards is its whole content.
\<close>

definition open_wb :: "'b world \<Rightarrow> string \<Rightarrow> py_error + unit" where
  "open_wb w p =
     (case files w p of
        Some Dir \<Rightarrow> Inl (is_a_directory p)
      | _ \<Rightarrow> Inr ())"

definition write_file :: "string \<Rightarrow> 'b \<Rightarrow> 'b world \<Rightarrow> 'b world" where
  "write_file p b w = w\<lparr>files := (files w)(p \<mapsto> File b)\<rparr>"

subsection \<open>Time\<close>

text \<open>
  \<^verbatim>\<open>datetime\<close> and \<^verbatim>\<open>timedelta\<close> count whole microseconds; a \<^verbatim>\<open>datetime\<close> is the number of
  microseconds since a fixed origin, and the difference of two is exact.
\<close>

type_synonym datetime = int
type_synonym timedelta = int

definition timedelta_of :: "int \<Rightarrow> int \<Rightarrow> int \<Rightarrow> timedelta" where
  "timedelta_of days hours minutes = ((days * 24 + hours) * 60 + minutes) * 60 * 1000000"

section \<open>The class ASI\<close>

text \<open>
  The four attributes set by \<^verbatim>\<open>__init__\<close>. \<open>'v\<close> is the type of the values kept in the two
  dictionaries, \<open>'m\<close> the state of the classifier.
\<close>

record ('v, 'm) asi =
  memory :: "string \<rightharpoonup> 'v"
  cache :: "string \<rightharpoonup> 'v"
  model :: 'm
  last_update_time :: datetime

definition asi_init :: "'m \<Rightarrow> datetime \<Rightarrow> ('v, 'm) asi" where
  "asi_init classifier now =
     \<lparr>memory = Map.empty, cache = Map.empty, model = classifier, last_update_time = now\<rparr>"

definition cache_path :: string where
  "cache_path = ''cache_dump.pkl''"

subsection \<open>load_plugins\<close>

text \<open>\<open>cdll\<close> is \<^verbatim>\<open>ctypes.CDLL\<close>: the handle of the loaded library, or the error of the loader.\<close>

definition load_plugins ::
  "(string \<Rightarrow> py_error + 'h) \<Rightarrow> string \<Rightarrow> 'b world \<Rightarrow> (py_error + 'h option) \<times> 'b world" where
  "load_plugins cdll file_path w =
     (if path_exists w file_path then
        (let w1 = logging_info (''Loading plugin: '' @ file_path) w in
         case cdll file_path of
           Inr plugin \<Rightarrow> (Inr (Some plugin), w1)
         | Inl e \<Rightarrow> (Inr None, logging_error (''Error loading plugin: '' @ str_error e) w1))
      else
        (Inr None, logging_error (''Plugin file '' @ file_path @ '' not found.'') w))"

subsection \<open>self_learn\<close>

text \<open>
  \<^verbatim>\<open>X\<close> is a list of references to list objects, the rows; the assignment
  \<^verbatim>\<open>X[i][2] = ...\<close> writes into the row object that \<^verbatim>\<open>X[i]\<close> refers to, so the rows live in a
  store, addressed by reference. Two positions of \<^verbatim>\<open>X\<close> may hold the same reference. The
  outer list is only read, and is the list of references itself.
\<close>

type_synonym ref = nat
type_synonym 'a store = "ref \<Rightarrow> 'a list"

text \<open>The store before any row is allocated: a reference without a row reads as \<^verbatim>\<open>[]\<close>.\<close>

definition no_rows :: "'a store" where
  "no_rows = (\<lambda>r. [])"

text \<open>
  \<^verbatim>\<open>for i in range(len(X)): X[i][2] = X[i][2] + Z_calibration\<close>, from index \<open>i\<close> on. Reading
  \<^verbatim>\<open>X[i][2]\<close> raises \<^verbatim>\<open>IndexError\<close> when the row has fewer than three elements; the rows
  written before stay written.
\<close>

function calibrate_from ::
  "nat \<Rightarrow> ref list \<Rightarrow> 'a::plus \<Rightarrow> 'a store \<Rightarrow> (py_error + unit) \<times> 'a store" where
  "calibrate_from i X c h =
     (if i < length X then
        (let r = X ! i in
         if length (h r) < 3 then (Inl (IndexError ''list index out of range''), h)
         else calibrate_from (Suc i) X c (h(r := (h r)[2 := h r ! 2 + c])))
      else (Inr (), h))"
  by pat_completeness auto
termination
  by (relation "measure (\<lambda>(i, X, c, h). length X - i)") auto

declare calibrate_from.simps [simp del]

text \<open>
  \<^verbatim>\<open>if Z_calibration:\<close> is false of \<^verbatim>\<open>None\<close> (the default) and of a number equal to zero.
\<close>

definition truthy :: "'a::zero option \<Rightarrow> bool" where
  "truthy Z = (case Z of None \<Rightarrow> False | Some c \<Rightarrow> c \<noteq> 0)"

text \<open>The calibration step: everything \<^verbatim>\<open>self_learn\<close> does before it calls \<^verbatim>\<open>fit\<close>.\<close>

definition calibration_step ::
  "ref list \<Rightarrow> 'a::{plus,zero} option \<Rightarrow> 'a store \<Rightarrow> 'b world \<Rightarrow>
     (py_error + unit) \<times> 'a store \<times> 'b world" where
  "calibration_step X Z h w =
     (case Z of
        Some c \<Rightarrow>
          (if truthy Z then
             (let w1 = logging_info ''Applying Z-axis calibration...'' w;
                  (res, h1) = calibrate_from 0 X c h
              in (res, h1, w1))
           else (Inr (), h, logging_info ''No Z-axis calibration provided, using raw Z data.'' w))
      | None \<Rightarrow> (Inr (), h, logging_info ''No Z-axis calibration provided, using raw Z data.'' w))"

text \<open>
  \<open>fit\<close> is the \<^verbatim>\<open>fit\<close> method of the classifier in \<^verbatim>\<open>self.model\<close>: it reads the rows and the labels and updates the classifier
  in place, or raises; it does not write to the rows.
\<close>

definition self_learn ::
  "('m \<Rightarrow> 'a list list \<Rightarrow> 'l list \<Rightarrow> (py_error + unit) \<times> 'm) \<Rightarrow>
   ref list \<Rightarrow> 'l list \<Rightarrow> 'a::{plus,zero} option \<Rightarrow>
   ('v, 'm) asi \<Rightarrow> 'a store \<Rightarrow> 'b world \<Rightarrow>
     (py_error + unit) \<times> ('v, 'm) asi \<times> 'a store \<times> 'b world" where
  "self_learn fit X y Z self h w =
     (case calibration_step X Z h w of
        (Inl e, h1, w1) \<Rightarrow> (Inl e, self, h1, w1)
      | (Inr u, h1, w1) \<Rightarrow>
          (let w2 = logging_info ''Learning from new data with Z-axis calibration...'' w1;
               (res, m) = fit (model self) (map h1 X) y
           in (res, self\<lparr>model := m\<rparr>, h1, w2)))"

subsection \<open>update_memory\<close>

text \<open>\<open>fmt\<close> renders the value inside the f-string of the log message.\<close>

definition update_memory ::
  "('v \<Rightarrow> string) \<Rightarrow> string \<Rightarrow> 'v \<Rightarrow> ('v, 'm) asi \<Rightarrow> 'b world \<Rightarrow> ('v, 'm) asi \<times> 'b world" where
  "update_memory fmt key val self w =
     (self\<lparr>memory := (memory self)(key \<mapsto> val)\<rparr>,
      logging_info (''Memory updated: '' @ key @ '' -> '' @ fmt val) w)"

subsection \<open>dump_cache and restore_cache\<close>

text \<open>
  \<open>pickle_dump c\<close> is \<^verbatim>\<open>pickle.dump(c, f)\<close>: the bytes it has written to \<open>f\<close>, and whether
  it raised while writing them. \<open>pickle_load b\<close> is \<^verbatim>\<open>pickle.load(f)\<close> on a file holding \<open>b\<close>.
\<close>

definition dump_cache ::
  "((string \<rightharpoonup> 'v) \<Rightarrow> (py_raised + unit) \<times> 'b) \<Rightarrow> ('v, 'm) asi \<Rightarrow> 'b world \<Rightarrow>
     (py_raised + unit) \<times> ('v, 'm) asi \<times> 'b world" where
  "dump_cache pickle_dump self w =
     (let w1 = logging_info ''Dumping cache to file...'' w in
      case open_wb w1 cache_path of
        Inl e \<Rightarrow> (Inl (Exception e), self, w1)
      | Inr u \<Rightarrow>
          (let (res, b) = pickle_dump (cache self)
           in (res, self, write_file cache_path b w1)))"

definition restore_cache ::
  "('b \<Rightarrow> py_raised + (string \<rightharpoonup> 'v)) \<Rightarrow> ('v, 'm) asi \<Rightarrow> 'b world \<Rightarrow>
     (py_raised + unit) \<times> ('v, 'm) asi \<times> 'b world" where
  "restore_cache pickle_load self w =
     (let w1 = logging_info ''Restoring from last cache dump...'' w in
      if path_exists w1 cache_path then
        (case open_rb w1 cache_path of
           Inl e \<Rightarrow> (Inl (Exception e), self, w1)
         | Inr b \<Rightarrow>
             (case pickle_load b of
                Inl r \<Rightarrow> (Inl r, self, w1)
              | Inr c \<Rightarrow>
                  (Inr (), self\<lparr>cache := c\<rparr>, logging_info ''Cache restored successfully.'' w1)))
      else (Inr (), self, logging_warning ''No cache dump found. Starting fresh.'' w1))"

subsection \<open>self_heal\<close>

text \<open>
  \<^verbatim>\<open>except Exception as e\<close> handles what is an \<^verbatim>\<open>Exception\<close>; anything else that
  \<^verbatim>\<open>restore_cache\<close> raises leaves \<^verbatim>\<open>self_heal\<close> as it came.
\<close>

definition self_heal ::
  "('b \<Rightarrow> py_raised + (string \<rightharpoonup> 'v)) \<Rightarrow> ('v, 'm) asi \<Rightarrow> 'b world \<Rightarrow>
     (py_raised + unit) \<times> ('v, 'm) asi \<times> 'b world" where
  "self_heal pickle_load self w =
     (let w1 = logging_info ''Attempting self-healing...'' w in
      case restore_cache pickle_load self w1 of
        (Inr u, self2, w2) \<Rightarrow> (Inr (), self2, logging_info ''Self-healing successful.'' w2)
      | (Inl r, self2, w2) \<Rightarrow>
          (case r of
             Exception e \<Rightarrow>
               (Inr (), self2, logging_error (''Self-healing failed: '' @ str_error e) w2)
           | SystemExit n \<Rightarrow> (Inl (SystemExit n), self2, w2)
           | KeyboardInterrupt \<Rightarrow> (Inl KeyboardInterrupt, self2, w2)))"

subsection \<open>maintain_memory\<close>

text \<open>
  The body of the \<^verbatim>\<open>while True\<close> loop up to the \<^verbatim>\<open>time.sleep(60)\<close>, with the value that
  \<^verbatim>\<open>datetime.now()\<close> returned. \<open>str_dt\<close> is \<^verbatim>\<open>str\<close> on a \<^verbatim>\<open>datetime\<close>, as a value of the memory.
\<close>

definition maintain_check ::
  "('v \<Rightarrow> string) \<Rightarrow> (datetime \<Rightarrow> 'v) \<Rightarrow> datetime \<Rightarrow> ('v, 'm) asi \<Rightarrow> 'b world \<Rightarrow>
     ('v, 'm) asi \<times> 'b world" where
  "maintain_check fmt str_dt current_time self w =
     (if current_time - last_update_time self > timedelta_of 1 0 0 then
        (let w1 = logging_info ''Performing daily memory update...'' w;
             (self1, w2) = update_memory fmt ''last_update'' (str_dt current_time) self w1
         in (self1\<lparr>last_update_time := current_time\<rparr>, w2))
      else (self, w))"

text \<open>
  The loop never leaves by itself. Its run over the first clock readings, one per
  iteration, is the state reached when the process is stopped after them.
\<close>

fun maintain_memory ::
  "('v \<Rightarrow> string) \<Rightarrow> (datetime \<Rightarrow> 'v) \<Rightarrow> datetime list \<Rightarrow> ('v, 'm) asi \<Rightarrow> 'b world \<Rightarrow>
     ('v, 'm) asi \<times> 'b world" where
  "maintain_memory fmt str_dt [] self w = (self, w)"
| "maintain_memory fmt str_dt (t # ts) self w =
     (case maintain_check fmt str_dt t self w of
        (self1, w1) \<Rightarrow> maintain_memory fmt str_dt ts self1 w1)"


section \<open>Properties\<close>

lemmas logging_defs = logging_info_def logging_warning_def logging_error_def

subsection \<open>The durable store\<close>

text \<open>
  C1, as the code has it. When \<^verbatim>\<open>dump_cache\<close> returns normally and \<^verbatim>\<open>pickle.load\<close> reads
  back, from the bytes that \<^verbatim>\<open>pickle.dump\<close> wrote for the mapping, a mapping equal to it, a
  \<^verbatim>\<open>restore_cache\<close> run on the world the dump left, by the same object or by another one,
  returns normally with a cache equal to the dumped mapping.
\<close>

theorem dump_restore_roundtrip:
  assumes "fst (dump_cache pd self w) = Inr ()"
    and "pl (snd (pd (cache self))) = Inr (cache self)"
  shows "case dump_cache pd self w of (res1, self1, w1) \<Rightarrow>
           (case restore_cache pl other w1 of (res2, other2, w2) \<Rightarrow>
              res2 = Inr () \<and> cache other2 = cache self)"
  using assms
  by (auto simp: dump_cache_def restore_cache_def open_wb_def open_rb_def write_file_def
        path_exists_def logging_defs Let_def
        split: option.splits node.splits prod.splits sum.splits)

theorem dump_restore_roundtrip_witness:
  "fst (dump_cache (\<lambda>c. (Inr (), c))
          \<lparr>memory = Map.empty, cache = [''k'' \<mapsto> 1::int], model = (), last_update_time = 0\<rparr>
          \<lparr>files = Map.empty, log_records = []\<rparr>) = Inr ()
   \<and> (case dump_cache (\<lambda>c. (Inr (), c))
          \<lparr>memory = Map.empty, cache = [''k'' \<mapsto> 1::int], model = (), last_update_time = 0\<rparr>
          \<lparr>files = Map.empty, log_records = []\<rparr> of
        (res1, self1, w1) \<Rightarrow>
          (case restore_cache Inr (asi_init () 5) w1 of (res2, other2, w2) \<Rightarrow>
             res2 = Inr () \<and> cache other2 = [''k'' \<mapsto> 1]))"
  using dump_restore_roundtrip [of "\<lambda>c. (Inr (), c)"
      "\<lparr>memory = Map.empty, cache = [''k'' \<mapsto> 1::int], model = (), last_update_time = 0\<rparr>"
      "\<lparr>files = Map.empty, log_records = []\<rparr>" Inr "asi_init () 5"]
  by (simp add: dump_cache_def open_wb_def Let_def logging_defs)

text \<open>
  C1 as stated fails for a mapping that \<^verbatim>\<open>pickle\<close> does not read back equal. A value that is
  equal only to itself (an instance of a class without \<^verbatim>\<open>__eq__\<close>, a float NaN) is given
  here by its identity. The stream records the key and the kind of the value, not the
  identity, and loading builds a new object: the dump of \<^verbatim>\<open>{'k': obj}\<close> succeeds, the restore
  succeeds, and the restored cache holds another object and is not equal to the dumped
  one.
\<close>

theorem dump_restore_roundtrip_counterexample:
  "fst (dump_cache (\<lambda>c. (Inr (), (\<lambda>k. map_option (\<lambda>v. ()) (c k))))
          \<lparr>memory = Map.empty, cache = [''k'' \<mapsto> 0::nat], model = (), last_update_time = 0\<rparr>
          \<lparr>files = Map.empty, log_records = []\<rparr>) = Inr ()
   \<and> (case dump_cache (\<lambda>c. (Inr (), (\<lambda>k. map_option (\<lambda>v. ()) (c k))))
          \<lparr>memory = Map.empty, cache = [''k'' \<mapsto> 0::nat], model = (), last_update_time = 0\<rparr>
          \<lparr>files = Map.empty, log_records = []\<rparr> of
        (res1, self1, w1) \<Rightarrow>
          (case restore_cache (\<lambda>b. Inr (\<lambda>k. map_option (\<lambda>u. 1::nat) (b k))) self1 w1 of
             (res2, self2, w2) \<Rightarrow>
               res2 = Inr () \<and> cache self2 ''k'' = Some 1 \<and> cache self2 \<noteq> [''k'' \<mapsto> 0]))"
  by (auto simp: dump_cache_def restore_cache_def open_wb_def open_rb_def write_file_def
        path_exists_def logging_defs Let_def dest!: fun_cong [where x = "''k''"])

text \<open>
  C2, as the code has it. With no file at the snapshot path \<^verbatim>\<open>restore_cache\<close> returns
  normally, for every prior cache and every behaviour of \<^verbatim>\<open>pickle.load\<close>, and its last log
  record is the warning; the cache is left as it was, so it is empty afterwards when it
  was empty before the call, as it is in a newly constructed object.
\<close>

theorem restore_absent_returns_cache_as_it_was:
  assumes "files w cache_path = None"
  shows "fst (restore_cache pl self w) = Inr ()
         \<and> cache (fst (snd (restore_cache pl self w))) = cache self
         \<and> (cache self = Map.empty \<longrightarrow> cache (fst (snd (restore_cache pl self w))) = Map.empty)
         \<and> last (log_records (snd (snd (restore_cache pl self w))))
             = (WARNING, ''No cache dump found. Starting fresh.'')"
  using assms by (simp add: restore_cache_def path_exists_def logging_defs)

theorem restore_absent_returns_cache_as_it_was_witness:
  "files \<lparr>files = Map.empty, log_records = []\<rparr> cache_path = None
   \<and> cache (asi_init () 0 :: (int, unit) asi) = Map.empty
   \<and> fst (restore_cache (Inr :: (string \<rightharpoonup> int) \<Rightarrow> _) (asi_init () 0)
            \<lparr>files = Map.empty, log_records = []\<rparr>) = Inr ()
   \<and> cache (fst (snd (restore_cache (Inr :: (string \<rightharpoonup> int) \<Rightarrow> _) (asi_init () 0)
            \<lparr>files = Map.empty, log_records = []\<rparr>))) = Map.empty
   \<and> last (log_records (snd (snd (restore_cache (Inr :: (string \<rightharpoonup> int) \<Rightarrow> _)
            (asi_init () 0 :: (int, unit) asi) \<lparr>files = Map.empty, log_records = []\<rparr>))))
       = (WARNING, ''No cache dump found. Starting fresh.'')"
  using restore_absent_returns_cache_as_it_was
    [of "\<lparr>files = Map.empty, log_records = []\<rparr>" "Inr :: (string \<rightharpoonup> int) \<Rightarrow> _"
        "asi_init () 0 :: (int, unit) asi"]
  by (simp add: asi_init_def)

text \<open>
  C2 as stated fails: a cache holding one entry still holds it after \<^verbatim>\<open>restore_cache\<close>
  has found no snapshot file, so what the call leaves is not the empty mapping.
\<close>

theorem restore_absent_empty_cache_counterexample:
  "files \<lparr>files = Map.empty, log_records = []\<rparr> cache_path = None
   \<and> cache (fst (snd (restore_cache (Inr :: (string \<rightharpoonup> int) \<Rightarrow> _)
        \<lparr>memory = Map.empty, cache = [''k'' \<mapsto> 1::int], model = (), last_update_time = 0\<rparr>
        \<lparr>files = Map.empty, log_records = []\<rparr>))) \<noteq> Map.empty"
  by (simp add: restore_cache_def path_exists_def logging_defs)

text \<open>
  C7 (idempotent dump). A second \<^verbatim>\<open>dump_cache\<close> right after the first has the same outcome
  and leaves every file, the snapshot among them, as the first left it; the object is
  not changed by either. What a dump leaves at the snapshot path is the bytes written
  for the cache and nothing of the content that was there before (unless the path is a
  directory, which stays one).
\<close>

theorem dump_cache_idempotent:
  "case dump_cache pd self w of (res1, self1, w1) \<Rightarrow>
     (case dump_cache pd self1 w1 of (res2, self2, w2) \<Rightarrow>
        files w2 = files w1 \<and> res2 = res1 \<and> self1 = self \<and> self2 = self
        \<and> files w1 cache_path =
            (if files w cache_path = Some Dir then Some Dir
             else Some (File (snd (pd (cache self))))))"
  by (auto simp: dump_cache_def open_wb_def write_file_def logging_defs Let_def
        split: option.splits node.splits prod.splits sum.splits)

text \<open>
  C9 (frame). With no file at the snapshot path \<^verbatim>\<open>restore_cache\<close> leaves the cache, and
  the whole object, as it was before the call.
\<close>

theorem restore_absent_cache_unchanged:
  assumes "files w cache_path = None"
  shows "cache (fst (snd (restore_cache pl self w))) = cache self
         \<and> fst (snd (restore_cache pl self w)) = self"
  using assms by (simp add: restore_cache_def path_exists_def logging_defs)

theorem restore_absent_cache_unchanged_witness:
  "files \<lparr>files = [''asi.log'' \<mapsto> File ''x''], log_records = []\<rparr> cache_path = None
   \<and> cache (fst (snd (restore_cache (\<lambda>b. Inl (Exception (EOFError ''Ran out of input'')))
        \<lparr>memory = Map.empty, cache = [''a'' \<mapsto> True], model = (), last_update_time = 7\<rparr>
        \<lparr>files = [''asi.log'' \<mapsto> File ''x''], log_records = []\<rparr>))) = [''a'' \<mapsto> True]"
  using restore_absent_cache_unchanged
    [of "\<lparr>files = [''asi.log'' \<mapsto> File ''x''], log_records = []\<rparr>"
        "\<lambda>b. Inl (Exception (EOFError ''Ran out of input''))"
        "\<lparr>memory = Map.empty, cache = [''a'' \<mapsto> True], model = (), last_update_time = 7\<rparr>"]
  by (simp add: cache_path_def)

subsection \<open>Self-heal\<close>

text \<open>
  C8, as the code has it. In every state in which \<^verbatim>\<open>restore_cache\<close> returns or raises an
  \<^verbatim>\<open>Exception\<close>, \<^verbatim>\<open>self_heal\<close> returns normally; its last log record is the error record
  with the message of the exception when \<^verbatim>\<open>restore_cache\<close> raised, and the success record
  otherwise.
\<close>

theorem self_heal_catches_Exception:
  assumes "\<forall>r. fst (restore_cache pl self (logging_info ''Attempting self-healing...'' w)) = Inl r
             \<longrightarrow> is_Exception r"
  shows "fst (self_heal pl self w) = Inr ()
   \<and> (\<forall>e. fst (restore_cache pl self (logging_info ''Attempting self-healing...'' w))
            = Inl (Exception e) \<longrightarrow>
          last (log_records (snd (snd (self_heal pl self w))))
            = (ERROR, ''Self-healing failed: '' @ str_error e))
   \<and> (fst (restore_cache pl self (logging_info ''Attempting self-healing...'' w)) = Inr () \<longrightarrow>
          last (log_records (snd (snd (self_heal pl self w))))
            = (INFO, ''Self-healing successful.''))"
  using assms
  by (auto simp: self_heal_def Let_def logging_defs split: prod.splits sum.splits py_raised.splits)

text \<open>An instance: the snapshot path is a directory, \<^verbatim>\<open>open\<close> raises, \<^verbatim>\<open>self_heal\<close> reports it.\<close>

theorem self_heal_catches_Exception_witness:
  "fst (restore_cache (Inr :: (string \<rightharpoonup> int) \<Rightarrow> _) (asi_init () 0 :: (int, unit) asi)
          (logging_info ''Attempting self-healing...''
             \<lparr>files = [cache_path \<mapsto> Dir], log_records = []\<rparr>))
     = Inl (Exception (is_a_directory cache_path))
   \<and> is_Exception (Exception (is_a_directory cache_path))
   \<and> fst (self_heal (Inr :: (string \<rightharpoonup> int) \<Rightarrow> _) (asi_init () 0 :: (int, unit) asi)
          \<lparr>files = [cache_path \<mapsto> Dir], log_records = []\<rparr>) = Inr ()
   \<and> last (log_records (snd (snd (self_heal (Inr :: (string \<rightharpoonup> int) \<Rightarrow> _)
          (asi_init () 0 :: (int, unit) asi)
          \<lparr>files = [cache_path \<mapsto> Dir], log_records = []\<rparr>))))
     = (ERROR, ''Self-healing failed: '' @ str_error (is_a_directory cache_path))"
proof -
  have r: "fst (restore_cache (Inr :: (string \<rightharpoonup> int) \<Rightarrow> _) (asi_init () 0 :: (int, unit) asi)
          (logging_info ''Attempting self-healing...''
             \<lparr>files = [cache_path \<mapsto> Dir], log_records = []\<rparr>))
     = Inl (Exception (is_a_directory cache_path))"
    by (simp add: restore_cache_def path_exists_def open_rb_def logging_defs)
  show ?thesis
    using self_heal_catches_Exception
      [of "Inr :: (string \<rightharpoonup> int) \<Rightarrow> _" "asi_init () 0 :: (int, unit) asi"
          "\<lparr>files = [cache_path \<mapsto> Dir], log_records = []\<rparr>"]
    by (simp add: r)
qed

text \<open>
  C8 as stated fails. The snapshot file holds the stream (of protocol 0, its lines ended
  by the character 10) whose loading calls \<^verbatim>\<open>sys.exit(3)\<close>; \<^verbatim>\<open>pickle.load\<close> raises \<^verbatim>\<open>SystemExit\<close>, which is not an \<^verbatim>\<open>Exception\<close>, and
  \<^verbatim>\<open>self_heal\<close> raises it to its caller, with no record of the failure in the log.
\<close>

theorem self_heal_never_raises_counterexample:
  "fst (self_heal (\<lambda>b. Inl (SystemExit 3) :: py_raised + (string \<rightharpoonup> int))
          (asi_init () 0 :: (int, unit) asi)
          \<lparr>files = [cache_path \<mapsto> File (''csys'' @ [CHR 0x0A] @ ''exit'' @ [CHR 0x0A] @ ''(I3'' @ [CHR 0x0A] @ ''tR.'')], log_records = []\<rparr>)
     = Inl (SystemExit 3)
   \<and> fst (self_heal (\<lambda>b. Inl (SystemExit 3) :: py_raised + (string \<rightharpoonup> int))
          (asi_init () 0 :: (int, unit) asi)
          \<lparr>files = [cache_path \<mapsto> File (''csys'' @ [CHR 0x0A] @ ''exit'' @ [CHR 0x0A] @ ''(I3'' @ [CHR 0x0A] @ ''tR.'')], log_records = []\<rparr>)
     \<noteq> Inr ()
   \<and> log_records (snd (snd (self_heal (\<lambda>b. Inl (SystemExit 3) :: py_raised + (string \<rightharpoonup> int))
          (asi_init () 0 :: (int, unit) asi)
          \<lparr>files = [cache_path \<mapsto> File (''csys'' @ [CHR 0x0A] @ ''exit'' @ [CHR 0x0A] @ ''(I3'' @ [CHR 0x0A] @ ''tR.'')], log_records = []\<rparr>)))
     = [(INFO, ''Attempting self-healing...''), (INFO, ''Restoring from last cache dump...'')]"
  by (simp add: self_heal_def restore_cache_def path_exists_def open_rb_def logging_defs)

subsection \<open>The memory table and the maintenance loop\<close>

text \<open>
  C6 (overwrite). After \<^verbatim>\<open>update_memory(k, v1)\<close> and then \<^verbatim>\<open>update_memory(k, v2)\<close> the
  entry of the memory for \<open>k\<close> is \<open>v2\<close>.
\<close>

theorem update_memory_overwrite:
  "(case update_memory fmt k v1 self w of (self1, w1) \<Rightarrow>
      (case update_memory fmt k v2 self1 w1 of (self2, w2) \<Rightarrow> memory self2 k)) = Some v2"
  by (simp add: update_memory_def)

text \<open>
  C4 (daily threshold). A check 23 hours 59 minutes after \<open>last_update_time\<close> changes
  neither the object nor the log. A check 24 hours 1 minute after it writes the
  timestamp string under the key \<^verbatim>\<open>last_update\<close>, changes no other entry of the memory,
  sets \<open>last_update_time\<close> to the time of the check, and logs one memory update.
\<close>

theorem maintain_check_daily_threshold:
  "maintain_check fmt str_dt (last_update_time self + timedelta_of 0 23 59) self w = (self, w)
   \<and> maintain_check fmt str_dt (last_update_time self + timedelta_of 1 0 1) self w =
       (self\<lparr>memory := (memory self)
                 (''last_update'' \<mapsto> str_dt (last_update_time self + timedelta_of 1 0 1)),
              last_update_time := last_update_time self + timedelta_of 1 0 1\<rparr>,
        w\<lparr>log_records := log_records w @
             [(INFO, ''Performing daily memory update...''),
              (INFO, ''Memory updated: last_update -> ''
                       @ fmt (str_dt (last_update_time self + timedelta_of 1 0 1)))]\<rparr>)"
  by (simp add: maintain_check_def update_memory_def timedelta_of_def logging_defs)

subsection \<open>The plugin loader\<close>

text \<open>
  C5. \<^verbatim>\<open>load_plugins\<close> never raises. When nothing exists at the path, and also when
  \<^verbatim>\<open>ctypes.CDLL\<close> raises, it returns \<^verbatim>\<open>None\<close>, and its last log record is an error record.
\<close>

theorem load_plugins_failure_returns_None:
  "\<not> isl (fst (load_plugins cdll p w))
   \<and> (files w p = None \<or> isl (cdll p) \<longrightarrow>
        fst (load_plugins cdll p w) = Inr None
        \<and> fst (last (log_records (snd (load_plugins cdll p w)))) = ERROR)"
  by (auto simp: load_plugins_def path_exists_def Let_def logging_defs isl_def
        split: sum.splits)

theorem load_plugins_failure_returns_None_witness:
  "files (\<lparr>files = Map.empty, log_records = []\<rparr> :: unit world) ''sensors.so'' = None
   \<and> fst (load_plugins (\<lambda>p. Inr (0::nat)) ''sensors.so''
            (\<lparr>files = Map.empty, log_records = []\<rparr> :: unit world)) = Inr None
   \<and> isl ((\<lambda>p. Inl (OSError ''invalid ELF header'')) ''sensors.so'' :: py_error + nat)
   \<and> fst (load_plugins (\<lambda>p. Inl (OSError ''invalid ELF header'') :: py_error + nat) ''sensors.so''
            \<lparr>files = [''sensors.so'' \<mapsto> File ()], log_records = []\<rparr>) = Inr None"
  using load_plugins_failure_returns_None
      [of "\<lambda>p. Inr (0::nat)" "''sensors.so''"
          "\<lparr>files = Map.empty, log_records = []\<rparr> :: unit world"]
    load_plugins_failure_returns_None
      [of "\<lambda>p. Inl (OSError ''invalid ELF header'') :: py_error + nat" "''sensors.so''"
          "\<lparr>files = [''sensors.so'' \<mapsto> File ()], log_records = []\<rparr>"]
  by simp

subsection \<open>The calibration step of self_learn\<close>

text \<open>
  What the loop computes when no row is too short: every row has had the offset added to
  its third element once for each position of \<open>X\<close>, from \<open>i\<close> on, that refers to it.
\<close>

lemma funpow_add_shift:
  "((\<lambda>v. v + c) ^^ n) ((x::'a::plus) + c) = ((\<lambda>v. v + c) ^^ n) x + c"
  by (induction n) simp_all

lemma calibrate_from_result:
  assumes "\<forall>r \<in> set X. 3 \<le> length (h r)"
  shows "calibrate_from i X c h =
           (Inr (), (\<lambda>r. (h r)[2 := ((\<lambda>v. v + c) ^^ count_list (drop i X) r) (h r ! 2)]))"
  using assms
proof (induction i X c h rule: calibrate_from.induct)
  case (1 i X c h)
  show ?case
  proof (cases "i < length X")
    case False
    then show ?thesis by (simp add: calibrate_from.simps)
  next
    case True
    define r where "r = X ! i"
    define h' where "h' = h(r := (h r)[2 := h r ! 2 + c])"
    have len: "3 \<le> length (h r)" using True "1.prems" by (simp add: r_def)
    have pre: "\<forall>q \<in> set X. 3 \<le> length (h' q)"
      using "1.prems" by (simp add: h'_def)
    have ih: "calibrate_from (Suc i) X c h' =
           (Inr (), (\<lambda>q. (h' q)[2 := ((\<lambda>v. v + c) ^^ count_list (drop (Suc i) X) q) (h' q ! 2)]))"
    proof -
      have nl: "\<not> length (h r) < 3" using len by simp
      show ?thesis
        unfolding h'_def by (rule "1.IH" [OF True r_def nl pre [unfolded h'_def]])
    qed
    have dr: "drop i X = r # drop (Suc i) X"
      using True by (simp add: r_def Cons_nth_drop_Suc)
    have eq: "(h' q)[2 := ((\<lambda>v. v + c) ^^ count_list (drop (Suc i) X) q) (h' q ! 2)]
            = (h q)[2 := ((\<lambda>v. v + c) ^^ count_list (drop i X) q) (h q ! 2)]" for q
    proof (cases "q = r")
      case True
      have "h' r ! 2 = h r ! 2 + c" using len by (simp add: h'_def)
      then show ?thesis using True len
        by (simp add: dr h'_def funpow_add_shift)
    next
      case False
      then show ?thesis by (simp add: dr h'_def)
    qed
    have "calibrate_from i X c h = calibrate_from (Suc i) X c h'"
      using True len by (subst calibrate_from.simps) (simp add: r_def h'_def Let_def)
    then show ?thesis by (simp add: ih eq)
  qed
qed

lemma count_list_distinct_nth:
  "distinct X \<Longrightarrow> i < length X \<Longrightarrow> count_list X (X ! i) = 1"
  by (induction X arbitrary: i) (auto simp: nth_Cons' count_list_0_iff)

lemma funpow_add_ge:
  fixes c :: "'a::linordered_ab_group_add"
  shows "0 \<le> c \<Longrightarrow> x \<le> ((\<lambda>v. v + c) ^^ n) x"
  by (induction n) (auto intro: add_increasing2)

lemma funpow_add_le:
  fixes c :: "'a::linordered_ab_group_add"
  shows "c \<le> 0 \<Longrightarrow> ((\<lambda>v. v + c) ^^ n) x \<le> x"
  by (induction n) (auto intro: add_decreasing2)

lemma funpow_add_neq:
  fixes c :: "'a::linordered_ab_group_add"
  assumes "c \<noteq> 0" "0 < n"
  shows "((\<lambda>v. v + c) ^^ n) x \<noteq> x"
proof -
  obtain m where n: "n = Suc m" using assms(2) by (cases n) auto
  show ?thesis
  proof (cases "0 < c")
    case True
    have "x \<le> ((\<lambda>v. v + c) ^^ m) x" using True by (intro funpow_add_ge) simp
    then have "x < ((\<lambda>v. v + c) ^^ m) x + c"
      using True add_le_less_mono [of x "((\<lambda>v. v + c) ^^ m) x" 0 c] by simp
    then show ?thesis by (simp add: n)
  next
    case False
    then have neg: "c < 0" using assms(1) by simp
    have "((\<lambda>v. v + c) ^^ m) x \<le> x" using neg by (intro funpow_add_le) simp
    then have "((\<lambda>v. v + c) ^^ m) x + c < x"
      using neg add_le_less_mono [of "((\<lambda>v. v + c) ^^ m) x" x c 0] by simp
    then show ?thesis by (simp add: n)
  qed
qed

text \<open>
  C3, as the code has it. When the rows of \<open>X\<close> are pairwise distinct list objects, each
  with at least three elements, the calibration step with offset \<open>c\<close> returns normally and
  leaves, in every row, the third element equal to its original value plus \<open>c\<close> and the
  first two elements as they were. (For \<open>c = 0\<close> the step writes nothing, and the original
  value plus zero is the original value.)
\<close>

theorem calibration_step_distinct_rows:
  fixes c :: "'a::monoid_add"
  assumes "distinct X" and "\<forall>r \<in> set X. 3 \<le> length (h r)" and "i < length X"
  shows "case calibration_step X (Some c) h w of (res, h1, w1) \<Rightarrow>
           res = Inr ()
           \<and> h1 (X ! i) ! 2 = h (X ! i) ! 2 + c
           \<and> h1 (X ! i) ! 0 = h (X ! i) ! 0
           \<and> h1 (X ! i) ! 1 = h (X ! i) ! 1"
proof (cases "c = 0")
  case True
  then show ?thesis by (simp add: calibration_step_def truthy_def)
next
  case False
  have len: "3 \<le> length (h (X ! i))" using assms(2,3) by simp
  have cnt: "count_list X (X ! i) = 1"
    by (rule count_list_distinct_nth [OF assms(1,3)])
  show ?thesis
    using False len
    by (simp add: calibration_step_def truthy_def calibrate_from_result [OF assms(2)] cnt)
qed

theorem calibration_step_distinct_rows_witness:
  "distinct [0::nat, 1]
   \<and> 3 \<le> length ((no_rows(0 := [1, 2, 3::int], 1 := [4, 5, 6])) 0)
   \<and> 3 \<le> length ((no_rows(0 := [1, 2, 3::int], 1 := [4, 5, 6])) 1)
   \<and> (1::nat) < length [0::nat, 1]
   \<and> (case calibration_step [0, 1] (Some 10) (no_rows(0 := [1, 2, 3::int], 1 := [4, 5, 6]))
             (\<lparr>files = Map.empty, log_records = []\<rparr> :: unit world) of
         (res, h1, w1) \<Rightarrow> res = Inr () \<and> h1 1 ! 2 = 16 \<and> h1 1 ! 0 = 4 \<and> h1 1 ! 1 = 5)"
  using calibration_step_distinct_rows
    [of "[0, 1]" "no_rows(0 := [1, 2, 3::int], 1 := [4, 5, 6])" 1 10
        "\<lparr>files = Map.empty, log_records = []\<rparr> :: unit world"]
  by (simp add: no_rows_def split: prod.splits)

text \<open>
  C3 as stated fails when two positions of \<open>X\<close> refer to the same row: with
  \<^verbatim>\<open>row = [0, 0, 0]; X = [row, row]\<close> and offset 1 the loop adds the offset to the one row
  twice, and \<^verbatim>\<open>X[0][2]\<close> ends as 2, not as its original value plus 1.
\<close>

theorem calibration_step_shared_row_counterexample:
  "3 \<le> length ((no_rows(0 := [0, 0, 0::int])) ([0, 0] ! 0))
   \<and> 3 \<le> length ((no_rows(0 := [0, 0, 0::int])) ([0, 0] ! 1))
   \<and> fst (snd (calibration_step [0, 0] (Some 1) (no_rows(0 := [0, 0, 0::int]))
                 (\<lparr>files = Map.empty, log_records = []\<rparr> :: unit world))) ([0, 0] ! 0) ! 2 = 2
   \<and> fst (snd (calibration_step [0, 0] (Some 1) (no_rows(0 := [0, 0, 0::int]))
                 (\<lparr>files = Map.empty, log_records = []\<rparr> :: unit world))) ([0, 0] ! 0) ! 2
       \<noteq> (no_rows(0 := [0, 0, 0::int])) ([0, 0] ! 0) ! 2 + 1"
  by (simp add: calibration_step_def truthy_def calibrate_from.simps Let_def)

text \<open>
  C10, as the code has it. With a non-zero offset and rows of at least three elements,
  the store that \<^verbatim>\<open>self_learn\<close> leaves, whether \<^verbatim>\<open>fit\<close> returned or raised, holds in the row
  object behind every position of the caller's \<open>X\<close> the row with its third element
  overwritten: the offset has been added to it once for each position of \<open>X\<close> that refers
  to the row, which is at least once. No copy is made: the rows written are the caller's.
  The element differs from the original one exactly when that addition changes the number.
\<close>

theorem self_learn_writes_rows_in_place:
  fixes c :: "'a::{plus,zero}"
  assumes "c \<noteq> 0" and "\<forall>r \<in> set X. 3 \<le> length (h r)" and "i < length X"
  shows "case self_learn fit X y (Some c) self h w of (res, self1, h1, w1) \<Rightarrow>
           0 < count_list X (X ! i)
           \<and> h1 (X ! i) =
               (h (X ! i))[2 := ((\<lambda>v. v + c) ^^ count_list X (X ! i)) (h (X ! i) ! 2)]
           \<and> (h1 (X ! i) ! 2 \<noteq> h (X ! i) ! 2) =
               (((\<lambda>v. v + c) ^^ count_list X (X ! i)) (h (X ! i) ! 2) \<noteq> h (X ! i) ! 2)"
proof -
  have len: "3 \<le> length (h (X ! i))" using assms(2,3) by simp
  have "X ! i \<in> set X" using assms(3) by simp
  then have pos: "0 < count_list X (X ! i)"
    using count_list_0_iff [of X "X ! i"] by auto
  show ?thesis
    using assms(1) pos len
    by (simp add: self_learn_def calibration_step_def truthy_def
          calibrate_from_result [OF assms(2)] Let_def split: prod.splits)
qed

theorem self_learn_writes_rows_in_place_witness:
  "(2::int) \<noteq> 0
   \<and> 3 \<le> length ((no_rows(5 := [1, 2, 3::int])) 5)
   \<and> (0::nat) < length [5::nat]
   \<and> (case self_learn (\<lambda>m rows labels. (Inr (), m)) [5] [True] (Some 2)
             \<lparr>memory = Map.empty, cache = Map.empty :: string \<rightharpoonup> int, model = (), last_update_time = 0\<rparr>
             (no_rows(5 := [1, 2, 3::int]))
             (\<lparr>files = Map.empty, log_records = []\<rparr> :: unit world) of
         (res, self1, h1, w1) \<Rightarrow> h1 5 = [1, 2, 5] \<and> h1 5 ! 2 \<noteq> 3)"
  using self_learn_writes_rows_in_place
    [of 2 "[5]" "no_rows(5 := [1, 2, 3::int])" 0
        "\<lambda>m rows labels. (Inr (), m)" "[True]"
        "\<lparr>memory = Map.empty, cache = Map.empty :: string \<rightharpoonup> int, model = (), last_update_time = 0\<rparr>"
        "\<lparr>files = Map.empty, log_records = []\<rparr> :: unit world"]
  by (simp add: no_rows_def split: prod.splits)

text \<open>
  Where adding a non-zero offset changes every number, as it does for the integers, the
  third element that \<^verbatim>\<open>self_learn\<close> leaves differs from the original one.
\<close>

lemma self_learn_changes_exact_numbers:
  fixes c :: "'a::linordered_ab_group_add"
  assumes "c \<noteq> 0" and "\<forall>r \<in> set X. 3 \<le> length (h r)" and "i < length X"
  shows "case self_learn fit X y (Some c) self h w of (res, self1, h1, w1) \<Rightarrow>
           h1 (X ! i) ! 2 \<noteq> h (X ! i) ! 2"
proof -
  have len: "3 \<le> length (h (X ! i))" using assms(2,3) by simp
  have "X ! i \<in> set X" using assms(3) by simp
  then have pos: "0 < count_list X (X ! i)"
    using count_list_0_iff [of X "X ! i"] by auto
  have neq: "((\<lambda>v. v + c) ^^ count_list X (X ! i)) (h (X ! i) ! 2) \<noteq> h (X ! i) ! 2"
    by (rule funpow_add_neq [OF assms(1) pos])
  show ?thesis
    using assms(1) len neq
    by (simp add: self_learn_def calibration_step_def truthy_def
          calibrate_from_result [OF assms(2)] Let_def split: prod.splits)
qed

text \<open>
  C10 as stated fails where the addition absorbs the offset. The numbers here are the
  non-negative integers and \<^verbatim>\<open>float('inf')\<close>, with Python's \<^verbatim>\<open>+\<close> on them. For
  \<^verbatim>\<open>X = [[0, 0, float('inf')]]\<close> and the offset 1 the loop assigns \<^verbatim>\<open>inf + 1\<close>, which is
  \<^verbatim>\<open>inf\<close>, and the third coordinate after the call is the one before it (the same
  happens with finite floats: \<^verbatim>\<open>1e16 + 1.0 == 1e16\<close>). \<^verbatim>\<open>fit\<close> then rejects the infinite input.
\<close>

theorem self_learn_modifies_counterexample:
  "(1::enat) \<noteq> 0
   \<and> 3 \<le> length ((no_rows(0 := [0, 0, \<infinity>::enat])) ([0] ! 0))
   \<and> (case self_learn
             (\<lambda>m rows labels.
                (Inl (ValueError (''Input X contains infinity or a value too large for dtype(''
                                   @ quoted ''float64'' @ '').'')), m))
             [0] [1::nat] (Some 1)
             \<lparr>memory = Map.empty, cache = Map.empty :: string \<rightharpoonup> int, model = (), last_update_time = 0\<rparr>
             (no_rows(0 := [0, 0, \<infinity>::enat]))
             (\<lparr>files = Map.empty, log_records = []\<rparr> :: unit world) of
         (res, self1, h1, w1) \<Rightarrow>
           h1 ([0] ! 0) ! 2 = (no_rows(0 := [0, 0, \<infinity>::enat])) ([0] ! 0) ! 2
           \<and> h1 ([0] ! 0) = [0, 0, \<infinity>])"
  by (simp add: self_learn_def calibration_step_def truthy_def calibrate_from.simps Let_def)

end
